theory Spec2Isabelle
  imports Main "HOL-Library.Word" "HOL-Library.Sublist"
begin

section \<open>The tunnel client of vpn_client_zero_rated.py\<close>

text \<open>
  The client opens a TAP device and a UDP socket and starts two threads. Thread
  \<open>read_tap\<close> (Pump A) reads a packet from the device, encrypts it and sends it to the
  proxy; thread \<open>read_socket\<close> (Pump B) receives a datagram, decrypts it and writes the
  result to the device. Both are \<^verbatim>\<open>while True\<close> loops without any
  \<^verbatim>\<open>try\<close>: an exception raised by any call of the loop body leaves the loop
  and ends the thread.

  The calls into the operating system and into the \<^verbatim>\<open>cryptography\<close> package are
  not code of this program. Their results are inputs of the model: the cipher object is
  a parameter, and every loop iteration is given the results of the system calls it
  makes.
\<close>

subsection \<open>Data\<close>

type_synonym bytes = "8 word list"

type_synonym addr = "string \<times> nat"

text \<open>
  The exceptions that can leave a loop body: \<^verbatim>\<open>InvalidToken\<close> from
  \<^verbatim>\<open>CIPHER.decrypt\<close>, whatever \<^verbatim>\<open>CIPHER.encrypt\<close> may raise,
  \<^verbatim>\<open>pywintypes.error\<close> from \<^verbatim>\<open>win32file\<close>, and \<^verbatim>\<open>OSError\<close>
  from the socket.
\<close>

datatype error = InvalidToken | EncryptError | Win32Error | OSError

text \<open>
  \<^verbatim>\<open>CIPHER = Fernet(KEY)\<close>: an object with an \<^verbatim>\<open>encrypt\<close> and a
  \<^verbatim>\<open>decrypt\<close> method. \<^verbatim>\<open>encrypt\<close> reads the clock and the system's
  random source; what it reads there is its first argument.
\<close>

record cipher =
  cipher_encrypt :: "bytes \<Rightarrow> bytes \<Rightarrow> error + bytes"
  cipher_decrypt :: "bytes \<Rightarrow> error + bytes"

definition PROXY_IP :: string where
  "PROXY_IP = ''your_proxy_server_ip''"

definition PROXY_PORT :: nat where
  "PROXY_PORT = 8080"

definition encrypt :: "cipher \<Rightarrow> bytes \<Rightarrow> bytes \<Rightarrow> error + bytes" where
  "encrypt CIPHER entropy data = cipher_encrypt CIPHER entropy data"

definition decrypt :: "cipher \<Rightarrow> bytes \<Rightarrow> error + bytes" where
  "decrypt CIPHER data = cipher_decrypt CIPHER data"

subsection \<open>The two pumps\<close>

datatype pump_state = RUNNING | STOPPED

text \<open>
  What one iteration of \<open>read_tap\<close> gets from outside: the result of
  \<^verbatim>\<open>win32file.ReadFile(tap, 4096)[1]\<close>, the entropy \<open>encrypt\<close> draws, and
  the result of \<^verbatim>\<open>sock.sendto\<close> should the iteration get that far.
\<close>

record tap_io =
  ReadFile_result :: "error + bytes"
  entropy :: bytes
  sendto_result :: "error + nat"

text \<open>
  What one iteration of \<open>read_socket\<close> gets from outside: the result of
  \<^verbatim>\<open>sock.recvfrom(4096)\<close> and the result of \<^verbatim>\<open>win32file.WriteFile\<close>
  should the iteration get that far.
\<close>

record sock_io =
  recvfrom_result :: "error + (bytes \<times> addr)"
  WriteFile_result :: "error + unit"

text \<open>
  The state of the relay: whether each thread is still in its loop, the arguments of
  every \<^verbatim>\<open>sock.sendto\<close> and \<^verbatim>\<open>win32file.WriteFile\<close> call made so far
  (oldest first).
\<close>

record relay =
  pumpA :: pump_state
  pumpB :: pump_state
  sendto_calls :: "(bytes \<times> addr) list"
  WriteFile_calls :: "bytes list"

text \<open>One iteration of the loop of \<open>read_tap\<close>.\<close>

definition read_tap :: "cipher \<Rightarrow> tap_io \<Rightarrow> relay \<Rightarrow> relay" where
  "read_tap CIPHER io s =
     (case ReadFile_result io of
        Inl e \<Rightarrow> s\<lparr>pumpA := STOPPED\<rparr>
      | Inr packet \<Rightarrow>
          (case encrypt CIPHER (entropy io) packet of
             Inl e \<Rightarrow> s\<lparr>pumpA := STOPPED\<rparr>
           | Inr encrypted \<Rightarrow>
               (case sendto_result io of
                  Inl e \<Rightarrow>
                    s\<lparr>pumpA := STOPPED,
                      sendto_calls := sendto_calls s @ [(encrypted, (PROXY_IP, PROXY_PORT))]\<rparr>
                | Inr n \<Rightarrow>
                    s\<lparr>sendto_calls := sendto_calls s @ [(encrypted, (PROXY_IP, PROXY_PORT))]\<rparr>)))"

text \<open>One iteration of the loop of \<open>read_socket\<close>; the sender address is discarded.\<close>

definition read_socket :: "cipher \<Rightarrow> sock_io \<Rightarrow> relay \<Rightarrow> relay" where
  "read_socket CIPHER io s =
     (case recvfrom_result io of
        Inl e \<Rightarrow> s\<lparr>pumpB := STOPPED\<rparr>
      | Inr (data, _) \<Rightarrow>
          (case decrypt CIPHER data of
             Inl e \<Rightarrow> s\<lparr>pumpB := STOPPED\<rparr>
           | Inr decrypted \<Rightarrow>
               (case WriteFile_result io of
                  Inl e \<Rightarrow>
                    s\<lparr>pumpB := STOPPED, WriteFile_calls := WriteFile_calls s @ [decrypted]\<rparr>
                | Inr u \<Rightarrow>
                    s\<lparr>WriteFile_calls := WriteFile_calls s @ [decrypted]\<rparr>)))"

text \<open>
  The two threads share nothing but the handles, so an execution is a sequence of loop
  iterations, each of one pump, in the order the scheduler and the arrival of packets
  give. An iteration offered to a thread that has ended does nothing.
\<close>

datatype event = Tap tap_io | Sock sock_io

fun step :: "cipher \<Rightarrow> event \<Rightarrow> relay \<Rightarrow> relay" where
  "step CIPHER (Tap io) s = (if pumpA s = RUNNING then read_tap CIPHER io s else s)"
| "step CIPHER (Sock io) s = (if pumpB s = RUNNING then read_socket CIPHER io s else s)"

fun run :: "cipher \<Rightarrow> event list \<Rightarrow> relay \<Rightarrow> relay" where
  "run CIPHER [] s = s"
| "run CIPHER (ev # evs) s = run CIPHER evs (step CIPHER ev s)"

text \<open>
  The state once \<open>start_vpn\<close> has started both threads: nothing is sent or written
  yet.
\<close>

definition threads_started :: relay where
  "threads_started =
     \<lparr>pumpA = RUNNING, pumpB = RUNNING, sendto_calls = [], WriteFile_calls = []\<rparr>"

text \<open>
  \<open>start_vpn\<close> opens the device and binds the socket first; either call may raise,
  and then no thread is started.
\<close>

definition start_vpn :: "error + unit \<Rightarrow> error + unit \<Rightarrow> error + relay" where
  "start_vpn CreateFile_result bind_result =
     (case CreateFile_result of
        Inl e \<Rightarrow> Inl e
      | Inr tap \<Rightarrow>
          (case bind_result of
             Inl e \<Rightarrow> Inl e
           | Inr sock \<Rightarrow> Inr threads_started))"

subsection \<open>A cipher for concrete runs\<close>

text \<open>
  A small cipher object to put in place of the parameter where a statement is evaluated
  at concrete inputs: a token is a version byte followed by the data, and a token that
  does not start with the version byte is rejected. The empty token, used below, is
  rejected by the Fernet scheme as well, under every key.
\<close>

definition sample_cipher :: cipher where
  "sample_cipher =
     \<lparr>cipher_encrypt = (\<lambda>entropy data. Inr (0x80 # data)),
      cipher_decrypt = (\<lambda>token.
         case token of
           [] \<Rightarrow> Inl InvalidToken
         | v # data \<Rightarrow> if v = 0x80 then Inr data else Inl InvalidToken)\<rparr>"

subsection \<open>What the relay was asked to send and write\<close>

text \<open>
  The tokens \<open>encrypt\<close> returns for the packets that the iterations of Pump A read from
  the device, each paired with the configured peer, in order.
\<close>

fun sealed_packets :: "cipher \<Rightarrow> event list \<Rightarrow> (bytes \<times> addr) list" where
  "sealed_packets CIPHER [] = []"
| "sealed_packets CIPHER (Tap io # evs) =
     (case ReadFile_result io of
        Inl e \<Rightarrow> []
      | Inr packet \<Rightarrow>
          (case encrypt CIPHER (entropy io) packet of
             Inl e \<Rightarrow> []
           | Inr encrypted \<Rightarrow> [(encrypted, (PROXY_IP, PROXY_PORT))]))
     @ sealed_packets CIPHER evs"
| "sealed_packets CIPHER (Sock io # evs) = sealed_packets CIPHER evs"

text \<open>
  The plaintexts \<open>decrypt\<close> returns for the datagrams that the iterations of Pump B
  receive, in order; a datagram on which \<open>decrypt\<close> fails contributes nothing.
\<close>

fun opened_packets :: "cipher \<Rightarrow> event list \<Rightarrow> bytes list" where
  "opened_packets CIPHER [] = []"
| "opened_packets CIPHER (Tap io # evs) = opened_packets CIPHER evs"
| "opened_packets CIPHER (Sock io # evs) =
     (case recvfrom_result io of
        Inl e \<Rightarrow> []
      | Inr (data, _) \<Rightarrow>
          (case decrypt CIPHER data of
             Inl e \<Rightarrow> []
           | Inr decrypted \<Rightarrow> [decrypted]))
     @ opened_packets CIPHER evs"

section \<open>Properties\<close>

subsection \<open>A pump that has stopped stays stopped and does nothing\<close>

lemma run_pumpA_stopped:
  "pumpA s = STOPPED \<Longrightarrow>
     pumpA (run CIPHER evs s) = STOPPED \<and>
     sendto_calls (run CIPHER evs s) = sendto_calls s"
proof (induction evs arbitrary: s)
  case Nil
  then show ?case by simp
next
  case (Cons ev evs)
  show ?case
  proof (cases ev)
    case (Tap io)
    with Cons show ?thesis by simp
  next
    case (Sock io)
    have "pumpA (step CIPHER ev s) = STOPPED \<and>
          sendto_calls (step CIPHER ev s) = sendto_calls s"
      using Cons.prems Sock
      by (simp add: read_socket_def split: sum.splits prod.splits)
    with Cons.IH [of "step CIPHER ev s"] show ?thesis by simp
  qed
qed

lemma run_pumpB_stopped:
  "pumpB s = STOPPED \<Longrightarrow>
     pumpB (run CIPHER evs s) = STOPPED \<and>
     WriteFile_calls (run CIPHER evs s) = WriteFile_calls s"
proof (induction evs arbitrary: s)
  case Nil
  then show ?case by simp
next
  case (Cons ev evs)
  show ?case
  proof (cases ev)
    case (Sock io)
    with Cons show ?thesis by simp
  next
    case (Tap io)
    have "pumpB (step CIPHER ev s) = STOPPED \<and>
          WriteFile_calls (step CIPHER ev s) = WriteFile_calls s"
      using Cons.prems Tap
      by (simp add: read_tap_def split: sum.splits)
    with Cons.IH [of "step CIPHER ev s"] show ?thesis by simp
  qed
qed

subsection \<open>An iteration of one pump leaves the other pump alone\<close>

lemma step_Tap_keeps:
  "pumpB (step CIPHER (Tap io) s) = pumpB s \<and>
   WriteFile_calls (step CIPHER (Tap io) s) = WriteFile_calls s"
  by (simp add: read_tap_def split: sum.splits)

lemma step_Sock_keeps:
  "pumpA (step CIPHER (Sock io) s) = pumpA s \<and>
   sendto_calls (step CIPHER (Sock io) s) = sendto_calls s"
  by (simp add: read_socket_def split: sum.splits prod.splits)





subsection \<open>Calls made are calls through the codec\<close>

lemma sendto_calls_run:
  "\<exists>ws. sendto_calls (run CIPHER evs s) = sendto_calls s @ ws \<and>
        prefix ws (sealed_packets CIPHER evs)"
proof (induction evs arbitrary: s)
  case Nil
  show ?case by simp
next
  case (Cons ev evs)
  show ?case
  proof (cases ev)
    case (Sock io)
    from Cons.IH [of "step CIPHER ev s"] Sock show ?thesis
      by (simp add: step_Sock_keeps del: step.simps)
  next
    case (Tap io)
    show ?thesis
    proof (cases "pumpA (step CIPHER ev s) = STOPPED")
      case True
      note stopped = run_pumpA_stopped [OF True, of CIPHER evs]
      have "\<exists>ws. sendto_calls (step CIPHER ev s) = sendto_calls s @ ws \<and>
                 prefix ws (sealed_packets CIPHER (ev # evs))"
        using Tap by (auto simp: read_tap_def split: sum.splits)
      with stopped show ?thesis by simp
    next
      case False
      then obtain packet encrypted n where ok:
        "ReadFile_result io = Inr packet"
        "encrypt CIPHER (entropy io) packet = Inr encrypted"
        "sendto_result io = Inr n" "pumpA s = RUNNING"
        using Tap by (cases "pumpA s") (auto simp: read_tap_def split: sum.splits if_splits)
      let ?x = "(encrypted, (PROXY_IP, PROXY_PORT))"
      have st: "sendto_calls (step CIPHER ev s) = sendto_calls s @ [?x]"
        using Tap ok by (simp add: read_tap_def)
      from Cons.IH [of "step CIPHER ev s"] obtain ws where
        ws: "sendto_calls (run CIPHER evs (step CIPHER ev s)) =
               sendto_calls (step CIPHER ev s) @ ws"
            "prefix ws (sealed_packets CIPHER evs)"
        by blast
      have "sendto_calls (run CIPHER (ev # evs) s) = sendto_calls s @ (?x # ws)"
        using ws(1) st by simp
      moreover have "prefix (?x # ws) (sealed_packets CIPHER (ev # evs))"
        using ws(2) Tap ok by simp
      ultimately show ?thesis by blast
    qed
  qed
qed

lemma WriteFile_calls_run:
  "\<exists>ws. WriteFile_calls (run CIPHER evs s) = WriteFile_calls s @ ws \<and>
        prefix ws (opened_packets CIPHER evs)"
proof (induction evs arbitrary: s)
  case Nil
  show ?case by simp
next
  case (Cons ev evs)
  show ?case
  proof (cases ev)
    case (Tap io)
    from Cons.IH [of "step CIPHER ev s"] Tap show ?thesis
      by (simp add: step_Tap_keeps del: step.simps)
  next
    case (Sock io)
    show ?thesis
    proof (cases "pumpB (step CIPHER ev s) = STOPPED")
      case True
      note stopped = run_pumpB_stopped [OF True, of CIPHER evs]
      have "\<exists>ws. WriteFile_calls (step CIPHER ev s) = WriteFile_calls s @ ws \<and>
                 prefix ws (opened_packets CIPHER (ev # evs))"
        using Sock by (auto simp: read_socket_def split: sum.splits prod.splits)
      with stopped show ?thesis by simp
    next
      case False
      then obtain data sender decrypted u where ok:
        "recvfrom_result io = Inr (data, sender)"
        "decrypt CIPHER data = Inr decrypted"
        "WriteFile_result io = Inr u" "pumpB s = RUNNING"
        using Sock
        by (cases "pumpB s")
          (auto simp: read_socket_def split: sum.splits prod.splits if_splits)
      have st: "WriteFile_calls (step CIPHER ev s) = WriteFile_calls s @ [decrypted]"
        using Sock ok by (simp add: read_socket_def)
      from Cons.IH [of "step CIPHER ev s"] obtain ws where
        ws: "WriteFile_calls (run CIPHER evs (step CIPHER ev s)) =
               WriteFile_calls (step CIPHER ev s) @ ws"
            "prefix ws (opened_packets CIPHER evs)"
        by blast
      have "WriteFile_calls (run CIPHER (ev # evs) s) = WriteFile_calls s @ (decrypted # ws)"
        using ws(1) st by simp
      moreover have "prefix (decrypted # ws) (opened_packets CIPHER (ev # evs))"
        using ws(2) Sock ok by simp
      ultimately show ?thesis by blast
    qed
  qed
qed

subsection \<open>A datagram that does not decrypt\<close>

text \<open>
  C1, as amended. When \<open>decrypt\<close> fails on a received datagram, nothing is written to
  the device for it; but the exception is not caught, so it ends the loop of Pump B:
  the pump is STOPPED, and whatever arrives afterwards, nothing is written to the
  device any more.
\<close>

theorem decrypt_failure_stops_pumpB:
  assumes "pumpB s = RUNNING"
    and "recvfrom_result io = Inr (data, sender)"
    and "decrypt CIPHER data = Inl e"
  shows "pumpB (run CIPHER (Sock io # evs) s) = STOPPED \<and>
         WriteFile_calls (run CIPHER (Sock io # evs) s) = WriteFile_calls s"
proof -
  have st: "step CIPHER (Sock io) s = s\<lparr>pumpB := STOPPED\<rparr>"
    using assms by (simp add: read_socket_def)
  have "pumpB (s\<lparr>pumpB := STOPPED\<rparr>) = STOPPED" by simp
  from run_pumpB_stopped [OF this, of CIPHER evs] st show ?thesis by simp
qed

text \<open>
  The theorem at a concrete run: an empty datagram from a stranger, then a well-formed
  token from the peer, which is no longer written to the device.
\<close>

theorem decrypt_failure_stops_pumpB_witness:
  "pumpB threads_started = RUNNING \<and>
   decrypt sample_cipher [] = Inl InvalidToken \<and>
   pumpB (run sample_cipher
            [Sock \<lparr>recvfrom_result = Inr ([], (''203.0.113.9'', 40000)),
                   WriteFile_result = Inr ()\<rparr>,
             Sock \<lparr>recvfrom_result = Inr ([0x80, 0x45, 0x00], (PROXY_IP, PROXY_PORT)),
                   WriteFile_result = Inr ()\<rparr>]
            threads_started) = STOPPED \<and>
   WriteFile_calls (run sample_cipher
            [Sock \<lparr>recvfrom_result = Inr ([], (''203.0.113.9'', 40000)),
                   WriteFile_result = Inr ()\<rparr>,
             Sock \<lparr>recvfrom_result = Inr ([0x80, 0x45, 0x00], (PROXY_IP, PROXY_PORT)),
                   WriteFile_result = Inr ()\<rparr>]
            threads_started) = WriteFile_calls threads_started"
proof -
  have a: "pumpB threads_started = RUNNING"
    by (simp add: threads_started_def)
  have b: "recvfrom_result \<lparr>recvfrom_result = Inr ([], (''203.0.113.9'', 40000)),
                   WriteFile_result = Inr ()\<rparr> = Inr ([], (''203.0.113.9'', 40000))"
    by simp
  have c: "decrypt sample_cipher [] = Inl InvalidToken"
    by (simp add: decrypt_def sample_cipher_def)
  from a c decrypt_failure_stops_pumpB [OF a b c,
      of "[Sock \<lparr>recvfrom_result = Inr ([0x80, 0x45, 0x00], (PROXY_IP, PROXY_PORT)),
                   WriteFile_result = Inr ()\<rparr>]"]
  show ?thesis by blast
qed

text \<open>
  C1 as stated fails: the relay has just started, an empty datagram arrives,
  \<open>decrypt\<close> refuses it, and Pump B is not RUNNING afterwards.
\<close>

theorem decrypt_failure_stops_pumpB_counterexample:
  "decrypt sample_cipher [] = Inl InvalidToken \<and>
   pumpB threads_started = RUNNING \<and>
   pumpB (run sample_cipher
            [Sock \<lparr>recvfrom_result = Inr ([], (''203.0.113.9'', 40000)),
                   WriteFile_result = Inr ()\<rparr>]
            threads_started) \<noteq> RUNNING"
  by (simp add: decrypt_def sample_cipher_def threads_started_def read_socket_def)

subsection \<open>A send that fails\<close>

text \<open>
  C3, as amended. When \<open>sock.sendto\<close> raises in Pump A, the exception is not caught:
  the sealed packet was handed to \<open>sendto\<close>, Pump A is STOPPED, and whatever the
  device offers afterwards, no later packet is sent.
\<close>

theorem sendto_failure_stops_pumpA:
  assumes "pumpA s = RUNNING"
    and "ReadFile_result io = Inr packet"
    and "encrypt CIPHER (entropy io) packet = Inr encrypted"
    and "sendto_result io = Inl e"
  shows "pumpA (run CIPHER (Tap io # evs) s) = STOPPED \<and>
         sendto_calls (run CIPHER (Tap io # evs) s) =
           sendto_calls s @ [(encrypted, (PROXY_IP, PROXY_PORT))]"
proof -
  let ?s' = "s\<lparr>pumpA := STOPPED,
                sendto_calls := sendto_calls s @ [(encrypted, (PROXY_IP, PROXY_PORT))]\<rparr>"
  have st: "step CIPHER (Tap io) s = ?s'"
    using assms by (simp add: read_tap_def)
  have "pumpA ?s' = STOPPED" by simp
  from run_pumpA_stopped [OF this, of CIPHER evs] st show ?thesis by simp
qed

text \<open>
  The theorem at a concrete run: the send of the first packet fails, and the second
  packet the device offers is never sent.
\<close>

theorem sendto_failure_stops_pumpA_witness:
  "pumpA threads_started = RUNNING \<and>
   encrypt sample_cipher [] [0x45, 0x00] = Inr [0x80, 0x45, 0x00] \<and>
   pumpA (run sample_cipher
            [Tap \<lparr>ReadFile_result = Inr [0x45, 0x00], entropy = [],
                  sendto_result = Inl OSError\<rparr>,
             Tap \<lparr>ReadFile_result = Inr [0x45, 0x01], entropy = [],
                  sendto_result = Inr 3\<rparr>]
            threads_started) = STOPPED \<and>
   sendto_calls (run sample_cipher
            [Tap \<lparr>ReadFile_result = Inr [0x45, 0x00], entropy = [],
                  sendto_result = Inl OSError\<rparr>,
             Tap \<lparr>ReadFile_result = Inr [0x45, 0x01], entropy = [],
                  sendto_result = Inr 3\<rparr>]
            threads_started) =
     sendto_calls threads_started @ [([0x80, 0x45, 0x00], (PROXY_IP, PROXY_PORT))]"
proof -
  let ?io = "\<lparr>ReadFile_result = Inr [0x45, 0x00], entropy = [],
                  sendto_result = Inl OSError\<rparr>"
  have a: "pumpA threads_started = RUNNING"
    by (simp add: threads_started_def)
  have b: "ReadFile_result ?io = Inr [0x45, 0x00]"
    by simp
  have c: "encrypt sample_cipher (entropy ?io) [0x45, 0x00] = Inr [0x80, 0x45, 0x00]"
    by (simp add: encrypt_def sample_cipher_def)
  have c': "encrypt sample_cipher [] [0x45, 0x00] = Inr [0x80, 0x45, 0x00]"
    by (simp add: encrypt_def sample_cipher_def)
  have d: "sendto_result ?io = Inl OSError"
    by simp
  from a c' sendto_failure_stops_pumpA [OF a b c d,
      of "[Tap \<lparr>ReadFile_result = Inr [0x45, 0x01], entropy = [],
                  sendto_result = Inr 3\<rparr>]"]
  show ?thesis by blast
qed

text \<open>
  C3 as stated fails: the device delivers a packet, it is encrypted, \<open>sendto\<close> raises,
  and Pump A is STOPPED.
\<close>

theorem sendto_failure_stops_pumpA_counterexample:
  "encrypt sample_cipher [] [0x45, 0x00] = Inr [0x80, 0x45, 0x00] \<and>
   pumpA threads_started = RUNNING \<and>
   pumpA (run sample_cipher
            [Tap \<lparr>ReadFile_result = Inr [0x45, 0x00], entropy = [],
                  sendto_result = Inl OSError\<rparr>]
            threads_started) = STOPPED"
  by (simp add: encrypt_def sample_cipher_def threads_started_def read_tap_def)

subsection \<open>A device call that fails\<close>




subsection \<open>Nothing bypasses the codec\<close>

text \<open>
  C5. In every execution from the start of the two threads, the datagrams handed to
  \<open>sock.sendto\<close> are, one for one and in order, tokens that \<open>encrypt\<close> returned for
  packets read from the device, each addressed to the configured peer; and the packets
  handed to \<open>WriteFile\<close> are, one for one and in order, plaintexts that \<open>decrypt\<close>
  returned for received datagrams. The calls form an initial part of those sequences,
  since a pump that has stopped makes no further call.
\<close>

theorem codec_on_every_call:
  "prefix (sendto_calls (run CIPHER evs threads_started)) (sealed_packets CIPHER evs) \<and>
   prefix (WriteFile_calls (run CIPHER evs threads_started)) (opened_packets CIPHER evs)"
proof
  from sendto_calls_run [of CIPHER evs threads_started]
  show "prefix (sendto_calls (run CIPHER evs threads_started)) (sealed_packets CIPHER evs)"
    by (auto simp: threads_started_def)
  from WriteFile_calls_run [of CIPHER evs threads_started]
  show "prefix (WriteFile_calls (run CIPHER evs threads_started)) (opened_packets CIPHER evs)"
    by (auto simp: threads_started_def)
qed

text \<open>
  The theorem at a concrete run: one device packet, one datagram that decrypts and one
  that does not.
\<close>

theorem codec_on_every_call_witness:
  "prefix (sendto_calls (run sample_cipher
       [Tap \<lparr>ReadFile_result = Inr [0x45, 0x00], entropy = [], sendto_result = Inr 3\<rparr>,
        Sock \<lparr>recvfrom_result = Inr ([0x80, 0x45, 0x01], (''203.0.113.9'', 40000)),
              WriteFile_result = Inr ()\<rparr>,
        Sock \<lparr>recvfrom_result = Inr ([0x45, 0x02], (PROXY_IP, PROXY_PORT)),
              WriteFile_result = Inr ()\<rparr>]
       threads_started))
     [([0x80, 0x45, 0x00], (PROXY_IP, PROXY_PORT))] \<and>
   prefix (WriteFile_calls (run sample_cipher
       [Tap \<lparr>ReadFile_result = Inr [0x45, 0x00], entropy = [], sendto_result = Inr 3\<rparr>,
        Sock \<lparr>recvfrom_result = Inr ([0x80, 0x45, 0x01], (''203.0.113.9'', 40000)),
              WriteFile_result = Inr ()\<rparr>,
        Sock \<lparr>recvfrom_result = Inr ([0x45, 0x02], (PROXY_IP, PROXY_PORT)),
              WriteFile_result = Inr ()\<rparr>]
       threads_started))
     [[0x45, 0x01]]"
  using codec_on_every_call [of sample_cipher
       "[Tap \<lparr>ReadFile_result = Inr [0x45, 0x00], entropy = [], sendto_result = Inr 3\<rparr>,
        Sock \<lparr>recvfrom_result = Inr ([0x80, 0x45, 0x01], (''203.0.113.9'', 40000)),
              WriteFile_result = Inr ()\<rparr>,
        Sock \<lparr>recvfrom_result = Inr ([0x45, 0x02], (PROXY_IP, PROXY_PORT)),
              WriteFile_result = Inr ()\<rparr>]"]
  by (simp add: encrypt_def decrypt_def sample_cipher_def)

subsection \<open>The sender address\<close>

text \<open>
  C9. Pump B does not look at the sender address of a datagram: two iterations that
  receive the same payload from different senders decrypt alike and leave the relay in
  the same state, so the same packet is written to the device, or the same datagram is
  refused. In particular a datagram from any sender is treated as one from the
  configured peer is.
\<close>

theorem read_socket_ignores_sender:
  "step CIPHER (Sock (io\<lparr>recvfrom_result := Inr (data, sender1)\<rparr>)) s =
   step CIPHER (Sock (io\<lparr>recvfrom_result := Inr (data, sender2)\<rparr>)) s"
  by (simp add: read_socket_def split: sum.splits)

end
